theory Spec2Isabelle
  imports Complex_Main
begin

section \<open>The tool-call dispatcher of the Altair component\<close>

text \<open>
  The development embeds \<^verbatim>\<open>src/components/altair/Altair.tsx\<close>: the two tool
  declarations, the two state cells of \<^verbatim>\<open>AltairComponent\<close>, the handler
  \<^verbatim>\<open>onToolCall\<close> and the effect that reports the presence of a room
  inspection result to the parent.
  Of the markup the model keeps what can make a render throw. The session configuration
  and the rendering of the chart text by the embedding library are outside the model.
\<close>

subsection \<open>Values\<close>

text \<open>
  The arguments of a function call arrive as parsed JSON, so a property value is a JSON
  value, or \<^verbatim>\<open>undefined\<close> when the property is read and missing. A JSON number is a
  finite double, kept here as the rational it denotes. An object lists its own
  properties; \<open>map_of\<close> reads one.
\<close>

datatype jsval =
    JUndefined
  | JNull
  | JBool bool
  | JNum rat
  | JStr string
  | JArr "jsval list"
  | JObj "(string \<times> jsval) list"

text \<open>JavaScript's truthiness, as \<^verbatim>\<open>jsonString && ...\<close> tests it.\<close>

fun truthy :: "jsval \<Rightarrow> bool" where
  "truthy JUndefined = False"
| "truthy JNull = False"
| "truthy (JBool b) = b"
| "truthy (JNum x) = (x \<noteq> 0)"
| "truthy (JStr t) = (t \<noteq> [])"
| "truthy (JArr xs) = True"
| "truthy (JObj m) = True"

text \<open>Reading a property \<^verbatim>\<open>o.k\<close> of an object: \<^verbatim>\<open>undefined\<close> when it is missing.\<close>

definition get_prop :: "(string \<times> jsval) list \<Rightarrow> string \<Rightarrow> jsval" where
  "get_prop m k = (case map_of m k of None \<Rightarrow> JUndefined | Some v \<Rightarrow> v)"

subsection \<open>Tool declarations\<close>

record functionDeclaration =
  decl_name :: string
  decl_required :: "string list"

definition chartDeclaration :: functionDeclaration where
  "chartDeclaration = \<lparr>decl_name = ''render_altair'', decl_required = [''json_graph'']\<rparr>"

definition roomInspectionDeclaration :: functionDeclaration where
  "roomInspectionDeclaration =
     \<lparr>decl_name = ''inspect_room'', decl_required = [''assessment'', ''score'']\<rparr>"

subsection \<open>Tool calls\<close>

text \<open>
  A function call: the element type \<^verbatim>\<open>FunctionCall\<close> of the batch, declared in
  the google/genai package, where \<^verbatim>\<open>id\<close>, \<^verbatim>\<open>name\<close> and \<^verbatim>\<open>args\<close> are all
  optional properties (\<open>None\<close> is the absent property). The argument
  object is kept with its address, since React compares state values and effect
  dependencies by identity (\<^verbatim>\<open>Object.is\<close>), not by content.
\<close>

type_synonym addr = nat

record functionCall =
  fc_id :: "string option"
  fc_name :: "string option"
  fc_args :: "(addr \<times> (string \<times> jsval) list) option"

text \<open>
  \<^verbatim>\<open>LiveServerToolCall\<close>: the batch \<^verbatim>\<open>functionCalls\<close> is optional as well, which is
  why the handler starts with \<^verbatim>\<open>if (!toolCall.functionCalls) return\<close>.
\<close>

record liveServerToolCall =
  functionCalls :: "functionCall list option"

subsection \<open>Component state\<close>

text \<open>
  \<^verbatim>\<open>roomResult\<close> is declared \<^verbatim>\<open>{assessment, score} | null\<close>, and the handler
  stores \<^verbatim>\<open>roomFc.args\<close> in it unchecked: at run time the cell holds \<^verbatim>\<open>null\<close>, an
  argument object, or \<^verbatim>\<open>undefined\<close> (a call without \<^verbatim>\<open>args\<close>).
\<close>

datatype roomval =
    RNull
  | RUndefined
  | RObj addr "(string \<times> jsval) list"

fun truthy_room :: "roomval \<Rightarrow> bool" where
  "truthy_room RNull = False"
| "truthy_room RUndefined = False"
| "truthy_room (RObj a m) = True"

text \<open>\<^verbatim>\<open>Object.is\<close> on the values the cell can hold: objects are equal when they are the same object.\<close>

fun object_is :: "roomval \<Rightarrow> roomval \<Rightarrow> bool" where
  "object_is RNull RNull = True"
| "object_is RUndefined RUndefined = True"
| "object_is (RObj a m) (RObj b n) = (a = b)"
| "object_is _ _ = False"

text \<open>The value of \<^verbatim>\<open>roomFc.args\<close> as it is stored.\<close>

fun room_of :: "(addr \<times> (string \<times> jsval) list) option \<Rightarrow> roomval" where
  "room_of None = RUndefined"
| "room_of (Some (a, m)) = RObj a m"

text \<open>
  \<^verbatim>\<open>jsonString\<close> is declared \<^verbatim>\<open>string\<close>, and the handler stores
  \<^verbatim>\<open>(chartFc.args as any).json_graph\<close> in it unchecked, so the cell can hold any value.
\<close>

record presentation =
  jsonString :: jsval
  roomResult :: roomval

text \<open>\<^verbatim>\<open>useState<string>("")\<close> and \<^verbatim>\<open>useState(null)\<close>.\<close>

definition initial :: presentation where
  "initial = \<lparr>jsonString = JStr [], roomResult = RNull\<rparr>"

text \<open>
  What the component shows: the chart area under \<^verbatim>\<open>jsonString && ...\<close>, the
  inspection area under \<^verbatim>\<open>roomResult && ...\<close>.
\<close>

definition chart_active :: "presentation \<Rightarrow> bool" where
  "chart_active s = truthy (jsonString s)"

definition inspection_active :: "presentation \<Rightarrow> bool" where
  "inspection_active s = truthy_room (roomResult s)"

subsection \<open>Acknowledgments\<close>

record functionResponse =
  fr_response :: jsval
  fr_id :: "string option"
  fr_name :: "string option"

text \<open>The object literal \<^verbatim>\<open>{ output: { success: true } }\<close>.\<close>

definition success_payload :: jsval where
  "success_payload = JObj [(''output'', JObj [(''success'', JBool True)])]"

definition ack :: "functionCall \<Rightarrow> functionResponse" where
  "ack fc = \<lparr>fr_response = success_payload, fr_id = fc_id fc, fr_name = fc_name fc\<rparr>"

text \<open>
  A call \<^verbatim>\<open>setTimeout(() => client.sendToolResponse({functionResponses: rs}), d)\<close>:
  the delay in milliseconds and the message the callback sends when it runs, once.
\<close>

record timeout =
  delay :: nat
  functionResponses :: "functionResponse list"

subsection \<open>The handler\<close>

datatype error = TypeError

definition is_chart :: "functionCall \<Rightarrow> bool" where
  "is_chart fc = (fc_name fc = Some (decl_name chartDeclaration))"

definition is_room :: "functionCall \<Rightarrow> bool" where
  "is_room fc = (fc_name fc = Some (decl_name roomInspectionDeclaration))"

text \<open>
  Lines 117 to 124. Reading \<^verbatim>\<open>.json_graph\<close> of an absent \<^verbatim>\<open>args\<close> throws a
  \<^verbatim>\<open>TypeError\<close> before either setter is called.
\<close>

definition chart_branch :: "presentation \<Rightarrow> functionCall list \<Rightarrow> error + presentation" where
  "chart_branch s fcs =
     (case find is_chart fcs of
        None \<Rightarrow> Inr s
      | Some chartFc \<Rightarrow>
          (case fc_args chartFc of
             None \<Rightarrow> Inl TypeError
           | Some (a, m) \<Rightarrow>
               Inr (s\<lparr>jsonString := get_prop m ''json_graph'', roomResult := RNull\<rparr>)))"

text \<open>Lines 127 to 133.\<close>

definition room_branch :: "presentation \<Rightarrow> functionCall list \<Rightarrow> presentation" where
  "room_branch s fcs =
     (case find is_room fcs of
        None \<Rightarrow> s
      | Some roomFc \<Rightarrow> s\<lparr>roomResult := room_of (fc_args roomFc), jsonString := JStr []\<rparr>)"

text \<open>Lines 136 to 148.\<close>

definition send_branch :: "functionCall list \<Rightarrow> timeout list" where
  "send_branch fcs =
     (if length fcs \<noteq> 0 then [\<lparr>delay = 200, functionResponses = map ack fcs\<rparr>] else [])"

text \<open>
  \<^verbatim>\<open>onToolCall\<close>: the state after the queued setters are applied and the timeouts
  scheduled, or the exception that ended the handler.
\<close>

definition onToolCall ::
  "presentation \<Rightarrow> liveServerToolCall \<Rightarrow> error + (presentation \<times> timeout list)" where
  "onToolCall s toolCall =
     (case functionCalls toolCall of
        None \<Rightarrow> Inr (s, [])
      | Some fcs \<Rightarrow>
          (case chart_branch s fcs of
             Inl e \<Rightarrow> Inl e
           | Inr s1 \<Rightarrow> Inr (room_branch s1 fcs, send_branch fcs)))"

subsection \<open>The component over a run of notifications\<close>

text \<open>
  The state the component holds after one notification: an exception leaves the handler
  before any setter ran, so the state is the one before.
\<close>

definition next_state :: "presentation \<Rightarrow> liveServerToolCall \<Rightarrow> presentation" where
  "next_state s toolCall =
     (case onToolCall s toolCall of Inl e \<Rightarrow> s | Inr (s', ts) \<Rightarrow> s')"

definition scheduled :: "presentation \<Rightarrow> liveServerToolCall \<Rightarrow> timeout list" where
  "scheduled s toolCall =
     (case onToolCall s toolCall of Inl e \<Rightarrow> [] | Inr (s', ts) \<Rightarrow> ts)"

definition run :: "presentation \<Rightarrow> liveServerToolCall list \<Rightarrow> presentation" where
  "run s toolCalls = foldl next_state s toolCalls"

subsection \<open>The notification effect\<close>

text \<open>
  Lines 73 to 75: \<^verbatim>\<open>onRoomInspectionChange?.(!!roomResult)\<close>, as the list of values
  the callback is called with. The callback is an optional prop; \<open>provided\<close> says
  whether the parent passed one.
\<close>

definition notify_effect :: "bool \<Rightarrow> roomval \<Rightarrow> bool list" where
  "notify_effect provided r = (if provided then [truthy_room r] else [])"

text \<open>
  What React accepts as a child of an element: a string or a number is shown, a boolean,
  \<^verbatim>\<open>null\<close> or \<^verbatim>\<open>undefined\<close> shows nothing, an array is accepted when its
  elements are, and a plain object makes the render throw.
\<close>

fun valid_child :: "jsval \<Rightarrow> bool" where
  "valid_child JUndefined = True"
| "valid_child JNull = True"
| "valid_child (JBool b) = True"
| "valid_child (JNum x) = True"
| "valid_child (JStr t) = True"
| "valid_child (JArr xs) = list_all valid_child xs"
| "valid_child (JObj m) = False"

datatype render_error = InvalidChild

text \<open>
  The render, lines 165 to 256, as far as it can throw. Under \<^verbatim>\<open>roomResult && ...\<close>
  line 200 places \<^verbatim>\<open>roomResult.score\<close> and line 208 places
  \<^verbatim>\<open>roomResult.assessment\<close> as children; the comparisons of line 197 do not throw.
  The chart area and the default area place only elements or falsy values.
\<close>

definition render :: "presentation \<Rightarrow> render_error + unit" where
  "render s =
     (case roomResult s of
        RNull \<Rightarrow> Inr ()
      | RUndefined \<Rightarrow> Inr ()
      | RObj a m \<Rightarrow>
          (if valid_child (get_prop m ''score'') \<and> valid_child (get_prop m ''assessment'')
           then Inr () else Inl InvalidChild))"

text \<open>
  React runs every effect after the first render, and after a later render runs an
  effect when one of its dependencies \<^verbatim>\<open>[roomResult, onRoomInspectionChange]\<close> changed
  under \<^verbatim>\<open>Object.is\<close>. A render caused by the component's own setters keeps its props,
  so only \<^verbatim>\<open>roomResult\<close> can have changed. When the render throws, nothing is
  committed, React removes the component and no effect of that render runs: the callback
  is not called.
\<close>

definition mount :: "bool \<Rightarrow> bool list" where
  "mount provided =
     (case render initial of
        Inl e \<Rightarrow> []
      | Inr u \<Rightarrow> notify_effect provided (roomResult initial))"

text \<open>
  One notification: the state the setters asked for and the calls of the callback. The
  state is shown only when \<open>render\<close> of it succeeds.
\<close>

definition deliver ::
  "bool \<Rightarrow> presentation \<Rightarrow> liveServerToolCall \<Rightarrow> presentation \<times> bool list" where
  "deliver provided s toolCall =
     (let s' = next_state s toolCall
      in (s', case render s' of
                Inl e \<Rightarrow> []
              | Inr u \<Rightarrow>
                  (if object_is (roomResult s) (roomResult s') then []
                   else notify_effect provided (roomResult s'))))"

subsection \<open>Auxiliary notions\<close>

text \<open>A notification that carries the batch \<open>fcs\<close>, and one that carries no batch.\<close>

definition batch :: "functionCall list \<Rightarrow> liveServerToolCall" where
  "batch fcs = \<lparr>functionCalls = Some fcs\<rparr>"

definition no_batch :: liveServerToolCall where
  "no_batch = \<lparr>functionCalls = None\<rparr>"

text \<open>
  The chart branch does not throw on \<open>fcs\<close>: there is no chart call, or the first one
  has an argument object.
\<close>

definition chart_args_present :: "functionCall list \<Rightarrow> bool" where
  "chart_args_present fcs =
     (case find is_chart fcs of None \<Rightarrow> True | Some chartFc \<Rightarrow> fc_args chartFc \<noteq> None)"

text \<open>The invariant behind mutual exclusion: one of the two cells holds its cleared value.\<close>

definition inv :: "presentation \<Rightarrow> bool" where
  "inv s = (jsonString s = JStr [] \<or> roomResult s = RNull)"

text \<open>Function calls used as concrete inputs.\<close>

definition ex_chart :: functionCall where
  "ex_chart = \<lparr>fc_id = Some ''1'', fc_name = Some ''render_altair'',
     fc_args = Some (1, [(''json_graph'', JStr ''{}'')])\<rparr>"

definition ex_room :: functionCall where
  "ex_room = \<lparr>fc_id = Some ''2'', fc_name = Some ''inspect_room'',
     fc_args = Some (2, [(''assessment'', JStr ''Tidy''), (''score'', JNum 8)])\<rparr>"

definition ex_unknown :: functionCall where
  "ex_unknown = \<lparr>fc_id = Some ''4'', fc_name = Some ''unknown_tool'', fc_args = Some (4, [])\<rparr>"

definition ex_chart_noargs :: functionCall where
  "ex_chart_noargs = \<lparr>fc_id = Some ''1'', fc_name = Some ''render_altair'', fc_args = None\<rparr>"

definition ex_room_noargs :: functionCall where
  "ex_room_noargs = \<lparr>fc_id = Some ''2'', fc_name = Some ''inspect_room'', fc_args = None\<rparr>"

definition ex_chart_nokey :: functionCall where
  "ex_chart_nokey = \<lparr>fc_id = Some ''5'', fc_name = Some ''render_altair'', fc_args = Some (5, [])\<rparr>"

definition ex_room_illtyped :: functionCall where
  "ex_room_illtyped = \<lparr>fc_id = Some ''6'', fc_name = Some ''inspect_room'',
     fc_args = Some (6, [(''score'', JStr ''high'')])\<rparr>"

definition ex_room_objscore :: functionCall where
  "ex_room_objscore = \<lparr>fc_id = Some ''7'', fc_name = Some ''inspect_room'',
     fc_args = Some (7, [(''assessment'', JStr ''Tidy''), (''score'', JObj [])])\<rparr>"

section \<open>Properties\<close>

lemmas ex_defs = ex_chart_def ex_room_def ex_unknown_def ex_chart_noargs_def ex_room_noargs_def
  ex_chart_nokey_def ex_room_illtyped_def ex_room_objscore_def batch_def no_batch_def

lemmas name_defs = is_chart_def is_room_def chartDeclaration_def roomInspectionDeclaration_def

lemmas handler_defs = onToolCall_def chart_branch_def room_branch_def send_branch_def
  get_prop_def ack_def

lemmas run_defs = next_state_def scheduled_def run_def deliver_def notify_effect_def mount_def
  render_def initial_def chart_active_def inspection_active_def

subsection \<open>The branches of the handler\<close>

lemma chart_branch_none: "find is_chart fcs = None \<Longrightarrow> chart_branch s fcs = Inr s"
  by (simp add: chart_branch_def)

lemma chart_branch_args:
  "find is_chart fcs = Some chartFc \<Longrightarrow> fc_args chartFc = Some (a, m) \<Longrightarrow>
   chart_branch s fcs = Inr (s\<lparr>jsonString := get_prop m ''json_graph'', roomResult := RNull\<rparr>)"
  by (simp add: chart_branch_def)

lemma chart_branch_noargs:
  "find is_chart fcs = Some chartFc \<Longrightarrow> fc_args chartFc = None \<Longrightarrow>
   chart_branch s fcs = Inl TypeError"
  by (simp add: chart_branch_def)

lemma room_branch_none: "find is_room fcs = None \<Longrightarrow> room_branch s fcs = s"
  by (simp add: room_branch_def)

lemma room_branch_found:
  "find is_room fcs = Some roomFc \<Longrightarrow>
   room_branch s fcs = s\<lparr>roomResult := room_of (fc_args roomFc), jsonString := JStr []\<rparr>"
  by (simp add: room_branch_def)

lemma chart_args_present_branch:
  "chart_args_present fcs \<Longrightarrow> \<exists>s1. chart_branch s fcs = Inr s1"
  by (auto simp: chart_args_present_def chart_branch_def split: option.splits)

lemma object_is_refl: "object_is r r"
  by (cases r) simp_all




text \<open>
  A record whose score is an object: the setters are called, the render throws, and the
  callback is not called.
\<close>

lemma render_failure_no_callback:
  "next_state initial (batch [ex_room_objscore])
     = \<lparr>jsonString = JStr [],
        roomResult = RObj 7 [(''assessment'', JStr ''Tidy''), (''score'', JObj [])]\<rparr>
   \<and> render (next_state initial (batch [ex_room_objscore])) = Inl InvalidChild
   \<and> snd (deliver True initial (batch [ex_room_objscore])) = []"
  by (simp add: ex_defs name_defs handler_defs next_state_def deliver_def render_def initial_def)

subsection \<open>The invariant\<close>

lemma inv_initial: "inv initial"
  by (simp add: inv_def initial_def)

lemma inv_chart_branch: "inv s \<Longrightarrow> chart_branch s fcs = Inr s1 \<Longrightarrow> inv s1"
  by (auto simp: chart_branch_def inv_def split: option.splits)

lemma inv_room_branch: "inv s \<Longrightarrow> inv (room_branch s fcs)"
  by (auto simp: room_branch_def inv_def split: option.splits)

lemma inv_next_state: "inv s \<Longrightarrow> inv (next_state s toolCall)"
  by (auto simp: next_state_def onToolCall_def split: option.splits sum.splits
      dest: inv_chart_branch intro: inv_room_branch)

lemma inv_run: "inv s \<Longrightarrow> inv (run s toolCalls)"
  unfolding run_def by (induction toolCalls arbitrary: s) (auto intro: inv_next_state)

lemma inv_exclusive: "inv s \<Longrightarrow> \<not> (chart_active s \<and> inspection_active s)"
  by (auto simp: inv_def chart_active_def inspection_active_def)



subsection \<open>The example scenarios of the specification\<close>

lemma scenario_1:
  "onToolCall initial (batch [ex_chart])
     = Inr (\<lparr>jsonString = JStr ''{}'', roomResult = RNull\<rparr>,
            [\<lparr>delay = 200, functionResponses =
               [\<lparr>fr_response = success_payload, fr_id = Some ''1'',
                  fr_name = Some ''render_altair''\<rparr>]\<rparr>])"
  by (simp add: ex_defs name_defs handler_defs run_defs)

lemma scenario_2:
  "deliver True initial (batch [ex_room])
     = (\<lparr>jsonString = JStr [],
          roomResult = RObj 2 [(''assessment'', JStr ''Tidy''), (''score'', JNum 8)]\<rparr>, [True])"
  by (simp add: ex_defs name_defs handler_defs run_defs)

lemma scenario_3:
  "deliver True (run initial [batch [ex_room]]) (batch [ex_chart])
     = (\<lparr>jsonString = JStr ''{}'', roomResult = RNull\<rparr>, [False])"
  by (simp add: ex_defs name_defs handler_defs run_defs)

lemma scenario_4:
  "onToolCall initial (batch [ex_unknown])
     = Inr (initial,
            [\<lparr>delay = 200, functionResponses =
               [\<lparr>fr_response = success_payload, fr_id = Some ''4'',
                  fr_name = Some ''unknown_tool''\<rparr>]\<rparr>])"
  by (simp add: ex_defs name_defs handler_defs run_defs)

subsection \<open>Mutual exclusion\<close>

text \<open>
  Claim C1. In every state reached from the initial state (chart text empty, no
  inspection record) by any sequence of tool-call notifications, the chart area and the
  inspection area are never both active: the chart text is not truthy while an inspection
  record is present.
\<close>

theorem mutual_exclusion:
  "\<not> (chart_active (run initial toolCalls) \<and> inspection_active (run initial toolCalls))"
  by (rule inv_exclusive [OF inv_run [OF inv_initial]])

text \<open>Claim C1 at a run of three batches: an inspection, a chart, and both at once.\<close>

theorem mutual_exclusion_witness:
  "\<not> (chart_active (run initial [batch [ex_room], batch [ex_chart], batch [ex_chart, ex_room]])
      \<and> inspection_active
          (run initial [batch [ex_room], batch [ex_chart], batch [ex_chart, ex_room]]))"
  by (rule mutual_exclusion)

subsection \<open>Chart batches\<close>

text \<open>
  Claim C2, as stated, fails: the batch below contains exactly one chart call, with a
  \<^verbatim>\<open>json_graph\<close> string, and dispatching it from the initial state does not yield
  the chart state, because the batch also holds an inspection call and the inspection
  branch runs last.
\<close>

theorem chart_dispatch_counterexample:
  "filter is_chart [ex_chart, ex_room] = [ex_chart]
   \<and> fc_args ex_chart = Some (1, [(''json_graph'', JStr ''{}'')])
   \<and> next_state initial (batch [ex_chart, ex_room])
       = \<lparr>jsonString = JStr [],
          roomResult = RObj 2 [(''assessment'', JStr ''Tidy''), (''score'', JNum 8)]\<rparr>
   \<and> next_state initial (batch [ex_chart, ex_room])
       \<noteq> \<lparr>jsonString = JStr ''{}'', roomResult = RNull\<rparr>"
  by (simp add: ex_defs name_defs handler_defs run_defs)

text \<open>
  Claim C2, amended. For every batch that holds no inspection call and whose first chart
  call (the only one, or the first of several in batch order) carries a
  \<^verbatim>\<open>json_graph\<close> string \<open>t\<close>, dispatching the batch from any prior state yields the
  chart text \<open>t\<close> with the inspection record cleared to \<^verbatim>\<open>null\<close>, and schedules
  the acknowledgment.
\<close>

theorem chart_dispatch:
  assumes "find is_chart fcs = Some chartFc"
    and "fc_args chartFc = Some (a, m)"
    and "map_of m ''json_graph'' = Some (JStr t)"
    and "find is_room fcs = None"
  shows "onToolCall s (batch fcs)
           = Inr (\<lparr>jsonString = JStr t, roomResult = RNull\<rparr>, send_branch fcs)"
  using assms
  by (simp add: onToolCall_def batch_def chart_branch_args room_branch_none get_prop_def)

text \<open>
  Claim C2, amended, at a batch of an unknown call and two chart calls, from a state that
  holds an inspection record: the first chart call is the one used.
\<close>

theorem chart_dispatch_witness:
  "onToolCall \<lparr>jsonString = JStr [], roomResult = RObj 2 []\<rparr>
       (batch [ex_unknown, ex_chart, ex_chart_nokey])
     = Inr (\<lparr>jsonString = JStr ''{}'', roomResult = RNull\<rparr>,
            send_branch [ex_unknown, ex_chart, ex_chart_nokey])"
  using chart_dispatch [of "[ex_unknown, ex_chart, ex_chart_nokey]" ex_chart 1
      "[(''json_graph'', JStr ''{}'')]" "''{}''" "\<lparr>jsonString = JStr [], roomResult = RObj 2 []\<rparr>"]
  by (simp add: ex_defs name_defs)

subsection \<open>Inspection batches\<close>

text \<open>
  When the chart branch does not throw, a batch whose first inspection call carries an
  argument object yields the inspection record (that very object) with the chart text
  cleared, whatever the prior state and whatever else the batch holds.
\<close>

lemma room_dispatch_when_chart_ok:
  assumes "chart_args_present fcs"
    and "find is_room fcs = Some roomFc"
    and "fc_args roomFc = Some (a, m)"
  shows "onToolCall s (batch fcs)
           = Inr (\<lparr>jsonString = JStr [], roomResult = RObj a m\<rparr>, send_branch fcs)"
proof -
  from assms(1) obtain s1 where "chart_branch s fcs = Inr s1"
    using chart_args_present_branch by blast
  then show ?thesis
    using assms(2,3) by (simp add: onToolCall_def batch_def room_branch_found)
qed

text \<open>
  Claim C3 says that every batch containing exactly one inspection call with
  \<^verbatim>\<open>assessment\<close> and \<^verbatim>\<open>score\<close> yields the inspection state. The batch below is
  one, and the handler throws on it: its chart call has no \<^verbatim>\<open>args\<close>, so line 121
  raises a \<^verbatim>\<open>TypeError\<close> before the inspection branch is reached, and the state stays
  the initial one, with no inspection record.
\<close>

theorem room_dispatch_typeerror:
  "filter is_room [ex_chart_noargs, ex_room] = [ex_room]
   \<and> fc_args ex_room = Some (2, [(''assessment'', JStr ''Tidy''), (''score'', JNum 8)])
   \<and> onToolCall initial (batch [ex_chart_noargs, ex_room]) = Inl TypeError
   \<and> next_state initial (batch [ex_chart_noargs, ex_room]) = initial
   \<and> \<not> inspection_active (next_state initial (batch [ex_chart_noargs, ex_room]))"
  by (simp add: ex_defs name_defs handler_defs run_defs)

subsection \<open>Acknowledgments\<close>

text \<open>
  When the chart branch does not throw, a non-empty batch schedules exactly one timeout,
  200 milliseconds out, whose message holds one response per call, in batch order, each
  with the call's id and name and the fixed payload; an empty batch schedules nothing.
\<close>

lemma acknowledgments_when_chart_ok:
  assumes "chart_args_present fcs"
  shows "scheduled s (batch fcs)
           = (if fcs = [] then [] else [\<lparr>delay = 200, functionResponses = map ack fcs\<rparr>])
         \<and> length (map ack fcs) = length fcs
         \<and> map fr_id (map ack fcs) = map fc_id fcs
         \<and> map fr_name (map ack fcs) = map fc_name fcs
         \<and> map fr_response (map ack fcs) = replicate (length fcs) success_payload"
proof -
  from assms obtain s1 where "chart_branch s fcs = Inr s1"
    using chart_args_present_branch by blast
  then have "scheduled s (batch fcs) = send_branch fcs"
    by (simp add: scheduled_def onToolCall_def batch_def)
  moreover have "map fr_response (map ack fcs) = replicate (length fcs) success_payload"
    by (induction fcs) (simp_all add: ack_def)
  ultimately show ?thesis
    by (simp add: send_branch_def ack_def comp_def)
qed

text \<open>
  Claim C4 says that every non-empty batch of size N produces N acknowledgments. The
  batch below has one call, a chart call without \<^verbatim>\<open>args\<close>: the handler throws at
  line 121 and never reaches \<^verbatim>\<open>setTimeout\<close>, so nothing is scheduled.
\<close>

theorem ack_typeerror:
  "onToolCall initial (batch [ex_chart_noargs]) = Inl TypeError
   \<and> scheduled initial (batch [ex_chart_noargs]) = []"
  by (simp add: ex_defs name_defs handler_defs run_defs)

subsection \<open>A batch with both kinds of call\<close>

text \<open>
  Claim C5, as stated, fails: the batch below holds a chart call and an inspection call,
  and the state after it is not the inspection variant. The inspection call has no
  \<^verbatim>\<open>args\<close>, the handler stores \<^verbatim>\<open>undefined\<close> as the record, and the component
  shows neither area.
\<close>

theorem both_counterexample:
  "is_chart ex_chart \<and> is_room ex_room_noargs
   \<and> next_state initial (batch [ex_chart, ex_room_noargs])
        = \<lparr>jsonString = JStr [], roomResult = RUndefined\<rparr>
   \<and> \<not> inspection_active (next_state initial (batch [ex_chart, ex_room_noargs]))"
  by (simp add: ex_defs name_defs handler_defs run_defs)

text \<open>
  Claim C5, amended. For every batch that holds a chart call and an inspection call, the
  first of each kind carrying an argument object, the state after dispatch is the
  inspection variant: the record is the inspection call's argument object and the chart
  text is cleared, because the inspection branch runs after the chart branch.
\<close>

theorem both_inspection_wins:
  assumes "find is_chart fcs = Some chartFc"
    and "fc_args chartFc = Some (a', m')"
    and "find is_room fcs = Some roomFc"
    and "fc_args roomFc = Some (a, m)"
  shows "next_state s (batch fcs) = \<lparr>jsonString = JStr [], roomResult = RObj a m\<rparr>
         \<and> inspection_active (next_state s (batch fcs))
         \<and> \<not> chart_active (next_state s (batch fcs))"
  using assms
  by (simp add: next_state_def onToolCall_def batch_def chart_branch_args room_branch_found
      inspection_active_def chart_active_def)

text \<open>Claim C5, amended, at a batch that lists the inspection call before the chart call.\<close>

theorem both_inspection_wins_witness:
  "next_state initial (batch [ex_room, ex_chart])
     = \<lparr>jsonString = JStr [],
        roomResult = RObj 2 [(''assessment'', JStr ''Tidy''), (''score'', JNum 8)]\<rparr>
   \<and> inspection_active (next_state initial (batch [ex_room, ex_chart]))
   \<and> \<not> chart_active (next_state initial (batch [ex_room, ex_chart]))"
  using both_inspection_wins [of "[ex_room, ex_chart]" ex_chart 1
      "[(''json_graph'', JStr ''{}'')]" ex_room 2
      "[(''assessment'', JStr ''Tidy''), (''score'', JNum 8)]" initial]
  by (simp add: ex_defs name_defs inspection_active_def chart_active_def)

subsection \<open>Unrecognised names\<close>

text \<open>
  Claim C6. For every batch that is empty or whose calls all carry names other than
  \<^verbatim>\<open>render_altair\<close> and \<^verbatim>\<open>inspect_room\<close>, the handler returns normally with the
  state it was given, and still schedules one acknowledgment per call when the batch is
  not empty.
\<close>

theorem unrecognized_ignored:
  assumes "\<forall>fc \<in> set fcs.
             fc_name fc \<noteq> Some ''render_altair'' \<and> fc_name fc \<noteq> Some ''inspect_room''"
  shows "onToolCall s (batch fcs)
           = Inr (s, if fcs = [] then []
                     else [\<lparr>delay = 200, functionResponses = map ack fcs\<rparr>])"
proof -
  from assms have "find is_chart fcs = None" and "find is_room fcs = None"
    by (auto simp: find_None_iff name_defs)
  then show ?thesis
    by (simp add: onToolCall_def batch_def chart_branch_none room_branch_none send_branch_def)
qed

text \<open>Claim C6 at the batch of one unknown call and at the empty batch, from a chart state.\<close>

theorem unrecognized_ignored_witness:
  "onToolCall \<lparr>jsonString = JStr ''{}'', roomResult = RNull\<rparr> (batch [ex_unknown])
     = Inr (\<lparr>jsonString = JStr ''{}'', roomResult = RNull\<rparr>,
            [\<lparr>delay = 200, functionResponses =
               [\<lparr>fr_response = success_payload, fr_id = Some ''4'',
                  fr_name = Some ''unknown_tool''\<rparr>]\<rparr>])
   \<and> onToolCall \<lparr>jsonString = JStr ''{}'', roomResult = RNull\<rparr> (batch [])
     = Inr (\<lparr>jsonString = JStr ''{}'', roomResult = RNull\<rparr>, [])"
  using unrecognized_ignored [of "[ex_unknown]" "\<lparr>jsonString = JStr ''{}'', roomResult = RNull\<rparr>"]
    unrecognized_ignored [of "[]" "\<lparr>jsonString = JStr ''{}'', roomResult = RNull\<rparr>"]
  by (simp add: ex_defs ack_def)

subsection \<open>The inspection-presence callback\<close>



subsection \<open>Idempotence\<close>

text \<open>
  Claim C8. Delivering the same notification twice in succession leaves the component in
  the state the first delivery produced, for every starting state and every batch (a chart
  batch in particular); the second delivery changes no effect dependency, so the callback
  is not called again.
\<close>

theorem dispatch_idempotent:
  "next_state (next_state s toolCall) toolCall = next_state s toolCall
   \<and> snd (deliver provided (next_state s toolCall) toolCall) = []"
proof -
  have "next_state (next_state s toolCall) toolCall = next_state s toolCall"
    by (auto simp: next_state_def onToolCall_def chart_branch_def room_branch_def
        split: option.splits sum.splits)
  then show ?thesis
    by (simp add: deliver_def Let_def object_is_refl split: sum.splits)
qed

text \<open>Claim C8 at the chart batch of the first scenario, from a state with an inspection record.\<close>

theorem dispatch_idempotent_witness:
  "next_state (next_state (run initial [batch [ex_room]]) (batch [ex_chart])) (batch [ex_chart])
     = next_state (run initial [batch [ex_room]]) (batch [ex_chart])
   \<and> snd (deliver True (next_state (run initial [batch [ex_room]]) (batch [ex_chart]))
        (batch [ex_chart])) = []"
  by (rule dispatch_idempotent)

subsection \<open>A notification without a batch\<close>

text \<open>
  Claim C9. When the notification carries no \<^verbatim>\<open>functionCalls\<close> at all, the handler
  returns at once: the state is the one before, no timeout is scheduled, and the callback
  is not called.
\<close>

theorem absent_batch:
  "onToolCall s no_batch = Inr (s, [])
   \<and> next_state s no_batch = s
   \<and> scheduled s no_batch = []
   \<and> snd (deliver provided s no_batch) = []"
  by (simp add: no_batch_def onToolCall_def next_state_def scheduled_def deliver_def Let_def
      object_is_refl split: sum.splits)

text \<open>Claim C9 from a state that holds an inspection record.\<close>

theorem absent_batch_witness:
  "onToolCall (run initial [batch [ex_room]]) no_batch = Inr (run initial [batch [ex_room]], [])
   \<and> next_state (run initial [batch [ex_room]]) no_batch = run initial [batch [ex_room]]
   \<and> scheduled (run initial [batch [ex_room]]) no_batch = []
   \<and> snd (deliver True (run initial [batch [ex_room]]) no_batch) = []"
  by (rule absent_batch)

subsection \<open>No argument validation\<close>

text \<open>
  Claim C10, as stated, fails: it speaks of every batch containing a chart call whose
  argument object lacks the key \<^verbatim>\<open>json_graph\<close>. The batch below holds such a call
  behind a chart call that has the key; the handler selects the first chart call, and the
  chart text becomes that call's string, not \<^verbatim>\<open>undefined\<close>.
\<close>

theorem no_argument_validation_counterexample:
  "filter is_chart [ex_unknown, ex_chart, ex_chart_nokey] = [ex_chart, ex_chart_nokey]
   \<and> fc_args ex_chart_nokey = Some (5, [])
   \<and> chart_branch \<lparr>jsonString = JStr [], roomResult = RObj 2 []\<rparr>
        [ex_unknown, ex_chart, ex_chart_nokey]
       = Inr \<lparr>jsonString = JStr ''{}'', roomResult = RNull\<rparr>
   \<and> next_state \<lparr>jsonString = JStr [], roomResult = RObj 2 []\<rparr>
        (batch [ex_unknown, ex_chart, ex_chart_nokey])
       = \<lparr>jsonString = JStr ''{}'', roomResult = RNull\<rparr>
   \<and> jsonString (next_state \<lparr>jsonString = JStr [], roomResult = RObj 2 []\<rparr>
        (batch [ex_unknown, ex_chart, ex_chart_nokey])) \<noteq> JUndefined"
  by (simp add: ex_defs name_defs handler_defs run_defs)

text \<open>
  Claim C10, amended. The handler validates no argument. When the first chart call of the
  batch has an argument object without the key \<^verbatim>\<open>json_graph\<close>, the chart branch
  still runs: the inspection record is cleared and the chart text becomes
  \<^verbatim>\<open>undefined\<close>, the handler goes on to the inspection branch and the acknowledgment,
  and that is the state after dispatch when the batch holds no inspection call. Likewise
  the inspection branch stores the argument object of the first inspection call as it
  is, the very object with whatever properties it has, and \<^verbatim>\<open>undefined\<close> when the
  call has none.
\<close>

theorem no_argument_validation:
  "(find is_chart fcs = Some chartFc \<and> fc_args chartFc = Some (a, m)
      \<and> map_of m ''json_graph'' = None
     \<longrightarrow> chart_branch s fcs = Inr \<lparr>jsonString = JUndefined, roomResult = RNull\<rparr>
         \<and> onToolCall s (batch fcs)
             = Inr (room_branch \<lparr>jsonString = JUndefined, roomResult = RNull\<rparr> fcs,
                    send_branch fcs)
         \<and> (find is_room fcs = None
              \<longrightarrow> next_state s (batch fcs) = \<lparr>jsonString = JUndefined, roomResult = RNull\<rparr>))
   \<and> (find is_room fcs = Some roomFc \<and> fc_args roomFc = Some (b, n)
     \<longrightarrow> room_branch s fcs = \<lparr>jsonString = JStr [], roomResult = RObj b n\<rparr>
         \<and> (chart_args_present fcs
              \<longrightarrow> next_state s (batch fcs) = \<lparr>jsonString = JStr [], roomResult = RObj b n\<rparr>))
   \<and> (find is_room fcs = Some roomFc \<and> fc_args roomFc = None
     \<longrightarrow> room_branch s fcs = \<lparr>jsonString = JStr [], roomResult = RUndefined\<rparr>
         \<and> (chart_args_present fcs
              \<longrightarrow> next_state s (batch fcs) = \<lparr>jsonString = JStr [], roomResult = RUndefined\<rparr>))"
proof (intro conjI impI)
  assume h: "find is_chart fcs = Some chartFc \<and> fc_args chartFc = Some (a, m)
      \<and> map_of m ''json_graph'' = None"
  then show c: "chart_branch s fcs = Inr \<lparr>jsonString = JUndefined, roomResult = RNull\<rparr>"
    by (simp add: chart_branch_def get_prop_def)
  then show o: "onToolCall s (batch fcs)
      = Inr (room_branch \<lparr>jsonString = JUndefined, roomResult = RNull\<rparr> fcs, send_branch fcs)"
    by (simp add: onToolCall_def batch_def)
  assume "find is_room fcs = None"
  with o show "next_state s (batch fcs) = \<lparr>jsonString = JUndefined, roomResult = RNull\<rparr>"
    by (simp add: next_state_def room_branch_none)
next
  assume h: "find is_room fcs = Some roomFc \<and> fc_args roomFc = Some (b, n)"
  then show "room_branch s fcs = \<lparr>jsonString = JStr [], roomResult = RObj b n\<rparr>"
    by (simp add: room_branch_def)
  assume "chart_args_present fcs"
  then obtain s1 where "chart_branch s fcs = Inr s1"
    using chart_args_present_branch by blast
  with h show "next_state s (batch fcs) = \<lparr>jsonString = JStr [], roomResult = RObj b n\<rparr>"
    by (simp add: next_state_def onToolCall_def batch_def room_branch_def)
next
  assume h: "find is_room fcs = Some roomFc \<and> fc_args roomFc = None"
  then show "room_branch s fcs = \<lparr>jsonString = JStr [], roomResult = RUndefined\<rparr>"
    by (simp add: room_branch_def)
  assume "chart_args_present fcs"
  then obtain s1 where "chart_branch s fcs = Inr s1"
    using chart_args_present_branch by blast
  with h show "next_state s (batch fcs) = \<lparr>jsonString = JStr [], roomResult = RUndefined\<rparr>"
    by (simp add: next_state_def onToolCall_def batch_def room_branch_def)
qed

text \<open>
  Claim C10, amended, at a chart call with an empty argument object, from a state that
  holds an inspection record; at an inspection call whose argument object has no
  assessment and a string for a score, from a chart state; and at an inspection call
  without arguments.
\<close>

theorem no_argument_validation_witness:
  "chart_branch \<lparr>jsonString = JStr [], roomResult = RObj 2 []\<rparr> [ex_chart_nokey]
     = Inr \<lparr>jsonString = JUndefined, roomResult = RNull\<rparr>
   \<and> next_state \<lparr>jsonString = JStr [], roomResult = RObj 2 []\<rparr> (batch [ex_chart_nokey])
     = \<lparr>jsonString = JUndefined, roomResult = RNull\<rparr>
   \<and> room_branch \<lparr>jsonString = JStr ''{}'', roomResult = RNull\<rparr> [ex_room_illtyped]
     = \<lparr>jsonString = JStr [], roomResult = RObj 6 [(''score'', JStr ''high'')]\<rparr>
   \<and> next_state \<lparr>jsonString = JStr ''{}'', roomResult = RNull\<rparr> (batch [ex_room_illtyped])
     = \<lparr>jsonString = JStr [], roomResult = RObj 6 [(''score'', JStr ''high'')]\<rparr>
   \<and> room_branch initial [ex_room_noargs] = \<lparr>jsonString = JStr [], roomResult = RUndefined\<rparr>
   \<and> next_state initial (batch [ex_room_noargs])
     = \<lparr>jsonString = JStr [], roomResult = RUndefined\<rparr>"
  using no_argument_validation [of "[ex_chart_nokey]" ex_chart_nokey 5 "[]"
      "\<lparr>jsonString = JStr [], roomResult = RObj 2 []\<rparr>" ex_room_noargs 0 "[]"]
    no_argument_validation [of "[ex_room_illtyped]" ex_chart_nokey 5 "[]"
      "\<lparr>jsonString = JStr ''{}'', roomResult = RNull\<rparr>" ex_room_illtyped 6
      "[(''score'', JStr ''high'')]"]
    no_argument_validation [of "[ex_room_noargs]" ex_chart_nokey 5 "[]" initial
      ex_room_noargs 0 "[]"]
  by (simp add: ex_defs name_defs initial_def chart_args_present_def)

end
